theory Spec2Isabelle
  imports Complex_Main
begin

section \<open>kodi2jellyfin: migrating Kodi watch records into Jellyfin's stores\<close>

text \<open>
  A shallow embedding of \<^verbatim>\<open>kodi2jellyfin.py\<close>. Python exceptions are values of
  \<open>error\<close>; a function that can raise returns \<open>error + 'a\<close> (\<open>Inl\<close> the exception),
  and one that also changes the stores returns the exception together with the state
  reached when it was raised.

  Three things of the Python library are parameters of the model, because the program
  only calls them: \<open>fromisoformat\<close> (\<^verbatim>\<open>datetime.fromisoformat\<close> on a \<^verbatim>\<open>str\<close>, \<open>None\<close>
  when it raises \<^verbatim>\<open>ValueError\<close>), \<open>timestamp\<close> (\<^verbatim>\<open>datetime.timestamp\<close>, the POSIX
  time as the float it returns, every float being a rational) and \<open>fault\<close> (whether the
  n-th statement sent to the stores raises \<^verbatim>\<open>sqlite3.OperationalError\<close>). The type
  \<open>'dt\<close> stands for \<^verbatim>\<open>datetime.datetime\<close>.
\<close>

datatype error =
    KeyError | TypeError | ValueError | AttributeError
  | OverflowError | AssertionError | OperationalError

subsection \<open>Library functions the program calls\<close>

text \<open>Sequencing of two computations that can raise: the first exception wins.\<close>

definition and_then :: "error + 'a \<Rightarrow> ('a \<Rightarrow> error + 'b) \<Rightarrow> error + 'b" where
  "and_then m f = (case m of Inl e \<Rightarrow> Inl e | Inr x \<Rightarrow> f x)"

text \<open>
  \<^verbatim>\<open>int(s)\<close> for a \<^verbatim>\<open>str\<close> of ASCII characters, base 10: white space (tab, line feed,
  vertical tab, form feed, carriage return, space) is stripped on both sides, then an
  optional sign, then digits with single underscores allowed between digits; anything else
  raises \<^verbatim>\<open>ValueError\<close>, as does a literal of more than \<^verbatim>\<open>sys.get_int_max_str_digits()\<close>
  digits (4300 unless configured). \<^verbatim>\<open>int(None)\<close> raises \<^verbatim>\<open>TypeError\<close>.
\<close>

definition isspace :: "char \<Rightarrow> bool" where
  "isspace c = (c \<in> set [CHR 0x09, CHR 0x0A, CHR 0x0B, CHR 0x0C, CHR 0x0D, CHR 0x20])"

definition isdigit :: "char \<Rightarrow> bool" where
  "isdigit c = (c \<in> set ''0123456789'')"

definition strip :: "string \<Rightarrow> string" where
  "strip s = rev (dropWhile isspace (rev (dropWhile isspace s)))"

fun digitpart :: "string \<Rightarrow> bool" where
  "digitpart [] = False"
| "digitpart [c] = isdigit c"
| "digitpart (c # d # cs) =
     (isdigit c \<and> (if d = CHR ''_'' then digitpart cs else digitpart (d # cs)))"

definition digit_value :: "char \<Rightarrow> int" where
  "digit_value c = int (of_char c) - 48"

definition digits_value :: "string \<Rightarrow> int" where
  "digits_value s = foldl (\<lambda>a c. 10 * a + digit_value c) 0 (filter isdigit s)"

definition int_max_str_digits :: nat where
  "int_max_str_digits = 4300"

definition int_of_digits :: "string \<Rightarrow> error + int" where
  "int_of_digits s =
     (if digitpart s \<and> length (filter isdigit s) \<le> int_max_str_digits
      then Inr (digits_value s) else Inl ValueError)"

definition int_of_str :: "string \<Rightarrow> error + int" where
  "int_of_str s =
     (case strip s of
        [] \<Rightarrow> Inl ValueError
      | c # cs \<Rightarrow>
          if c = CHR ''-'' then map_sum id uminus (int_of_digits cs)
          else if c = CHR ''+'' then int_of_digits cs
          else int_of_digits (c # cs))"

definition py_int :: "string option \<Rightarrow> error + int" where
  "py_int v = (case v of None \<Rightarrow> Inl TypeError | Some s \<Rightarrow> int_of_str s)"

text \<open>
  \<^verbatim>\<open>datetime.fromisoformat(v)\<close>: \<^verbatim>\<open>TypeError\<close> on \<^verbatim>\<open>None\<close>, \<^verbatim>\<open>ValueError\<close> on a string
  that is not a date-time, a \<^verbatim>\<open>datetime\<close> otherwise (never \<^verbatim>\<open>None\<close>).
\<close>

definition py_fromisoformat :: "(string \<Rightarrow> 'dt option) \<Rightarrow> string option \<Rightarrow> error + 'dt" where
  "py_fromisoformat fromisoformat v =
     (case v of
        None \<Rightarrow> Inl TypeError
      | Some s \<Rightarrow> (case fromisoformat s of None \<Rightarrow> Inl ValueError | Some t \<Rightarrow> Inr t))"

text \<open>\<^verbatim>\<open>int(x)\<close> for a float: truncation towards zero.\<close>

definition int_of_float :: "rat \<Rightarrow> int" where
  "int_of_float x = (if 0 \<le> x then \<lfloor>x\<rfloor> else \<lceil>x\<rceil>)"

text \<open>\<^verbatim>\<open>str.startswith\<close>.\<close>

definition startswith :: "string \<Rightarrow> string \<Rightarrow> bool" where
  "startswith s p = (take (length p) s = p)"

text \<open>
  \<^verbatim>\<open>csv.DictReader\<close> over the rows that \<^verbatim>\<open>csv.reader\<close> yields (each a list of strings):
  the first row gives the field names; a blank row (\<^verbatim>\<open>[]\<close>) is passed over; a row shorter
  than the field names gets \<^verbatim>\<open>None\<close> for the missing ones; the extra values of a longer
  row go under the key \<^verbatim>\<open>None\<close>, which no string key reads. As in a Python \<^verbatim>\<open>dict\<close>,
  the last value stored under a name wins.
\<close>

type_synonym row_dict = "string \<rightharpoonup> string option"

definition dict_of :: "string list \<Rightarrow> string list \<Rightarrow> row_dict" where
  "dict_of fieldnames row =
     map_of (rev (zip fieldnames
       (map Some row @ replicate (length fieldnames - length row) None)))"

definition DictReader :: "string list list \<Rightarrow> row_dict list" where
  "DictReader reader =
     (case reader of
        [] \<Rightarrow> []
      | fieldnames # rows \<Rightarrow> map (dict_of fieldnames) (filter (\<lambda>row. row \<noteq> []) rows))"

text \<open>\<^verbatim>\<open>row[name]\<close>: \<^verbatim>\<open>KeyError\<close> when the name is not a key.\<close>

definition getitem :: "row_dict \<Rightarrow> string \<Rightarrow> error + string option" where
  "getitem row name = (case row name of None \<Rightarrow> Inl KeyError | Some v \<Rightarrow> Inr v)"

subsection \<open>KodiWatched\<close>

text \<open>
  The dataclass declares \<^verbatim>\<open>folder\<close> and \<^verbatim>\<open>file_name\<close> as \<^verbatim>\<open>str\<close>, but its constructor
  checks nothing and \<open>parse\<close> passes on whatever the reader gives, so both can be \<^verbatim>\<open>None\<close>.
\<close>

record 'dt KodiWatched =
  folder :: "string option"
  file_name :: "string option"
  last_played :: "'dt option"
  play_count :: int

text \<open>The property \<^verbatim>\<open>path\<close>: \<^verbatim>\<open>self.folder + self.file_name\<close>.\<close>

definition path :: "'dt KodiWatched \<Rightarrow> error + string" where
  "path kw =
     (case folder kw of
        None \<Rightarrow> Inl TypeError
      | Some d \<Rightarrow> (case file_name kw of None \<Rightarrow> Inl TypeError | Some f \<Rightarrow> Inr (d @ f)))"

text \<open>
  The constructor call in the body of \<open>parse\<close>'s loop; the keyword arguments are evaluated
  in the order written.
\<close>

definition parse_row :: "(string \<Rightarrow> 'dt option) \<Rightarrow> row_dict \<Rightarrow> error + 'dt KodiWatched" where
  "parse_row fromisoformat row =
     and_then (getitem row ''strPath'') (\<lambda>fo.
     and_then (getitem row ''strFileName'') (\<lambda>fi.
     and_then (getitem row ''lastPlayed'') (\<lambda>lp.
     and_then (py_fromisoformat fromisoformat lp) (\<lambda>t.
     and_then (getitem row ''playCount'') (\<lambda>pc.
     and_then (py_int pc) (\<lambda>n.
       Inr \<lparr>folder = fo, file_name = fi, last_played = Some t, play_count = n\<rparr>))))))"

text \<open>
  The generator: one outcome per \<^verbatim>\<open>next()\<close>, a record (\<open>Inr\<close>) or the exception raised
  (\<open>Inl\<close>), after which the generator is finished.
\<close>

fun yield_rows :: "(string \<Rightarrow> 'dt option) \<Rightarrow> row_dict list \<Rightarrow> (error + 'dt KodiWatched) list" where
  "yield_rows fromisoformat [] = []"
| "yield_rows fromisoformat (row # rows) =
     (case parse_row fromisoformat row of
        Inl e \<Rightarrow> [Inl e]
      | Inr kw \<Rightarrow> Inr kw # yield_rows fromisoformat rows)"

definition parse :: "(string \<Rightarrow> 'dt option) \<Rightarrow> string list list \<Rightarrow> (error + 'dt KodiWatched) list" where
  "parse fromisoformat kodi_tsv = yield_rows fromisoformat (DictReader kodi_tsv)"

subsection \<open>The stores\<close>

record JellyfinUser =
  username :: string
  internal_id :: string

text \<open>
  A row of \<^verbatim>\<open>UserDatas\<close>, its fields named as the columns of the \<^verbatim>\<open>REPLACE\<close> statement
  (the dataclass \<^verbatim>\<open>UserData\<close> copies them one by one). \<open>lastPlayedDate\<close> is an integer:
  the registered adapter turns every \<^verbatim>\<open>datetime\<close> bound to a statement into Unix seconds.
\<close>

record UserData =
  key :: string
  userId :: string
  played :: bool
  playCount :: int
  lastPlayedDate :: int
  isFavorite :: bool
  playbackPositionTicks :: int

text \<open>
  Modelled from the spec: the declarations of the three tables, which are not in the
  source. \<^verbatim>\<open>Users\<close> holds rows \<open>(InternalId, Username)\<close>; \<^verbatim>\<open>TypedBaseItems\<close> holds rows
  \<open>(Path, UserDataKey)\<close>, the key nullable; \<^verbatim>\<open>UserDatas\<close> is keyed by \<open>key\<close>, so that
  \<^verbatim>\<open>REPLACE\<close> overwrites the row of that key. A list gives the order in which a
  \<^verbatim>\<open>SELECT\<close> returns rows, of which \<^verbatim>\<open>fetchone\<close> takes the first.
\<close>

record jellyfin_db =
  Users :: "JellyfinUser list"

record library_db =
  TypedBaseItems :: "(string \<times> string option) list"
  UserDatas :: "string \<rightharpoonup> UserData"

text \<open>
  A \<^verbatim>\<open>sqlite3.Connection\<close>: what is committed (\<open>disk\<close>) and what the connection reads and
  writes (\<open>view\<close>). A \<^verbatim>\<open>REPLACE\<close> opens a transaction implicitly and changes \<open>view\<close> only.
\<close>

record 'db connection =
  disk :: 'db
  view :: 'db

definition commit :: "'db connection \<Rightarrow> 'db connection" where
  "commit con = con\<lparr>disk := view con\<rparr>"

definition rollback :: "'db connection \<Rightarrow> 'db connection" where
  "rollback con = con\<lparr>view := disk con\<rparr>"

datatype store_call =
    Select_Users string
  | Select_TypedBaseItems string
  | Select_UserDatas string
  | Replace_UserDatas UserData
  | Commit_jellyfin
  | Commit_library

text \<open>
  \<^verbatim>\<open>JellyfinData\<close>: the two connections, and \<open>calls\<close>, the statements sent to them so far
  (kept to state which statements a run issues, and to number them for \<open>fault\<close>).
\<close>

record JellyfinData =
  jellyfin :: "jellyfin_db connection"
  library :: "library_db connection"
  calls :: "store_call list"

definition execute ::
  "(nat \<Rightarrow> bool) \<Rightarrow> store_call \<Rightarrow> 'a JellyfinData_scheme \<Rightarrow> error option \<times> 'a JellyfinData_scheme" where
  "execute fault call jd =
     (if fault (length (calls jd)) then Some OperationalError else None,
      jd\<lparr>calls := calls jd @ [call]\<rparr>)"

definition get_user_by_name ::
  "(nat \<Rightarrow> bool) \<Rightarrow> string \<Rightarrow> 'a JellyfinData_scheme \<Rightarrow> (error + JellyfinUser) \<times> 'a JellyfinData_scheme" where
  "get_user_by_name fault name jd =
     (case execute fault (Select_Users name) jd of
        (Some e, jd') \<Rightarrow> (Inl e, jd')
      | (None, jd') \<Rightarrow>
          (case find (\<lambda>row. username row = name) (Users (view (jellyfin jd'))) of
             None \<Rightarrow> (Inl TypeError, jd')
           | Some row \<Rightarrow> (Inr \<lparr>username = username row, internal_id = internal_id row\<rparr>, jd')))"

text \<open>
  What \<open>get_user_data_key_for_path\<close> returns once its \<^verbatim>\<open>SELECT\<close> has run: \<^verbatim>\<open>None\<close> when no
  row has the path, else the \<^verbatim>\<open>UserDataKey\<close> of the first such row (which can be null).
\<close>

definition user_data_key_for_path :: "(string \<times> string option) list \<Rightarrow> string \<Rightarrow> string option" where
  "user_data_key_for_path items p =
     (case find (\<lambda>row. fst row = p) items of
        None \<Rightarrow> None
      | Some row \<Rightarrow> snd row)"

definition get_user_data_key_for_path ::
  "(nat \<Rightarrow> bool) \<Rightarrow> string \<Rightarrow> 'a JellyfinData_scheme \<Rightarrow> (error + string option) \<times> 'a JellyfinData_scheme" where
  "get_user_data_key_for_path fault p jd =
     (case execute fault (Select_TypedBaseItems p) jd of
        (Some e, jd') \<Rightarrow> (Inl e, jd')
      | (None, jd') \<Rightarrow> (Inr (user_data_key_for_path (TypedBaseItems (view (library jd'))) p), jd'))"

text \<open>The adapter registered for \<^verbatim>\<open>datetime\<close>: \<^verbatim>\<open>int(val.timestamp())\<close>.\<close>

definition adapt_datetime_epoch :: "('dt \<Rightarrow> rat) \<Rightarrow> 'dt \<Rightarrow> int" where
  "adapt_datetime_epoch timestamp val = int_of_float (timestamp val)"

definition replace_into_UserDatas :: "UserData \<Rightarrow> library_db \<Rightarrow> library_db" where
  "replace_into_UserDatas row db = db\<lparr>UserDatas := (UserDatas db)(key row \<mapsto> row)\<rparr>"

text \<open>
  Binding the parameters comes first: the adapter converts the \<^verbatim>\<open>datetime\<close>, and an
  integer outside 64 bits raises \<^verbatim>\<open>OverflowError\<close> before any statement is sent.
\<close>

definition bound_row ::
  "('dt \<Rightarrow> rat) \<Rightarrow> string \<Rightarrow> string \<Rightarrow> bool \<Rightarrow> int \<Rightarrow> 'dt \<Rightarrow> UserData" where
  "bound_row timestamp k user_id pl pc last_played_date =
     \<lparr>key = k, userId = user_id, played = pl, playCount = pc,
      lastPlayedDate = adapt_datetime_epoch timestamp last_played_date,
      isFavorite = False, playbackPositionTicks = 0\<rparr>"

definition upsert_user_data ::
  "(nat \<Rightarrow> bool) \<Rightarrow> ('dt \<Rightarrow> rat) \<Rightarrow> string \<Rightarrow> string \<Rightarrow> bool \<Rightarrow> int \<Rightarrow> 'dt \<Rightarrow>
     'a JellyfinData_scheme \<Rightarrow> error option \<times> 'a JellyfinData_scheme" where
  "upsert_user_data fault timestamp k user_id pl pc last_played_date jd =
     (if pc < - (2 ^ 63) \<or> 2 ^ 63 \<le> pc then (Some OverflowError, jd)
      else
        (let row = bound_row timestamp k user_id pl pc last_played_date
         in case execute fault (Replace_UserDatas row) jd of
              (Some e, jd') \<Rightarrow> (Some e, jd')
            | (None, jd') \<Rightarrow>
                (None, jd'\<lparr>library := (library jd')
                         \<lparr>view := replace_into_UserDatas row (view (library jd'))\<rparr>\<rparr>)))"

definition get_user_data ::
  "(nat \<Rightarrow> bool) \<Rightarrow> string \<Rightarrow> 'a JellyfinData_scheme \<Rightarrow> (error + UserData option) \<times> 'a JellyfinData_scheme" where
  "get_user_data fault k jd =
     (case execute fault (Select_UserDatas k) jd of
        (Some e, jd') \<Rightarrow> (Inl e, jd')
      | (None, jd') \<Rightarrow> (Inr (UserDatas (view (library jd')) k), jd'))"

subsection \<open>The engine\<close>

text \<open>
  What the root logger is called with: \<^verbatim>\<open>logging.debug(f"Skipping {kodi_watched}")\<close>, kept
  as the record itself, and \<^verbatim>\<open>logging.warning(warning)\<close> with its text.
\<close>

datatype 'dt log_record = DEBUG_Skipping "'dt KodiWatched" | WARNING string

text \<open>
  The state of one run: the \<^verbatim>\<open>JellyfinData\<close> object, the local list of unmatched records
  and the calls made to \<^verbatim>\<open>logging\<close>.
\<close>

record 'dt run = JellyfinData +
  kodi_watched_missing_from_jellyfin :: "'dt KodiWatched list"
  logging :: "'dt log_record list"

text \<open>
  The expression \<open>skip\<close> of the loop: \<^verbatim>\<open>or\<close> evaluates its second operand only when the
  first is false.
\<close>

definition skip :: "'dt KodiWatched \<Rightarrow> error + bool" where
  "skip kw =
     and_then (path kw) (\<lambda>p.
       if p = ''/'' then Inr True
       else (case folder kw of
               None \<Rightarrow> Inl AttributeError
             | Some d \<Rightarrow> Inr (startswith d ''plugin://'')))"

text \<open>The body of the \<^verbatim>\<open>for\<close> loop, for one record.\<close>

definition process ::
  "(nat \<Rightarrow> bool) \<Rightarrow> ('dt \<Rightarrow> rat) \<Rightarrow> JellyfinUser \<Rightarrow> 'dt KodiWatched \<Rightarrow> 'dt run \<Rightarrow>
     error option \<times> 'dt run" where
  "process fault timestamp user kw st =
     (case skip kw of
        Inl e \<Rightarrow> (Some e, st)
      | Inr True \<Rightarrow> (None, st\<lparr>logging := logging st @ [DEBUG_Skipping kw]\<rparr>)
      | Inr False \<Rightarrow>
          (case path kw of
             Inl e \<Rightarrow> (Some e, st)
           | Inr p \<Rightarrow>
               (case get_user_data_key_for_path fault p st of
                  (Inl e, st') \<Rightarrow> (Some e, st')
                | (Inr None, st') \<Rightarrow>
                    (None, st'\<lparr>kodi_watched_missing_from_jellyfin :=
                                  kodi_watched_missing_from_jellyfin st' @ [kw]\<rparr>)
                | (Inr (Some user_data_key), st') \<Rightarrow>
                    (case last_played kw of
                       None \<Rightarrow> (Some AssertionError, st')
                     | Some lp \<Rightarrow>
                         upsert_user_data fault timestamp user_data_key (internal_id user)
                           (play_count kw > 0) (play_count kw) lp st'))))"

text \<open>
  The \<^verbatim>\<open>for\<close> loop over the generator: an exception of the generator, or of the body,
  ends it.
\<close>

fun for_loop ::
  "(nat \<Rightarrow> bool) \<Rightarrow> ('dt \<Rightarrow> rat) \<Rightarrow> JellyfinUser \<Rightarrow> (error + 'dt KodiWatched) list \<Rightarrow> 'dt run \<Rightarrow>
     error option \<times> 'dt run" where
  "for_loop fault timestamp user [] st = (None, st)"
| "for_loop fault timestamp user (Inl e # rest) st = (Some e, st)"
| "for_loop fault timestamp user (Inr kw # rest) st =
     (case process fault timestamp user kw st of
        (Some e, st') \<Rightarrow> (Some e, st')
      | (None, st') \<Rightarrow> for_loop fault timestamp user rest st')"

text \<open>The text of the warning: the fixed sentence, then a newline and the path of each record.\<close>

definition warning_head :: string where
  "warning_head =
     ''I ran into some files that are marked as watched in Kodi, but don't exist over in Jellyfin''"

fun warning_text :: "string \<Rightarrow> 'dt KodiWatched list \<Rightarrow> error + string" where
  "warning_text warning [] = Inr warning"
| "warning_text warning (kw # kws) =
     and_then (path kw) (\<lambda>p. warning_text (warning @ [CHR 0x0A] @ p) kws)"

definition report :: "'dt run \<Rightarrow> error option \<times> 'dt run" where
  "report st =
     (if length (kodi_watched_missing_from_jellyfin st) > 0
      then (case warning_text warning_head (kodi_watched_missing_from_jellyfin st) of
              Inl e \<Rightarrow> (Some e, st)
            | Inr warning \<Rightarrow> (None, st\<lparr>logging := logging st @ [WARNING warning]\<rparr>))
      else (None, st))"

text \<open>
  The directory \<^verbatim>\<open>jellyfin_data_dir\<close> with its two database files, and the context manager
  \<^verbatim>\<open>JellyfinData.open\<close> around a body: an exception of the body is thrown in at the
  \<^verbatim>\<open>yield\<close>, so that it skips the two commits and leaves \<^verbatim>\<open>with jellyfin_con, library_con\<close>
  through a rollback of each; without one, both are committed.
\<close>

record jellyfin_data_dir =
  jellyfin_db_file :: jellyfin_db
  library_db_file :: library_db

definition connect :: "'db \<Rightarrow> 'db connection" where
  "connect file = \<lparr>disk = file, view = file\<rparr>"

definition opened :: "jellyfin_data_dir \<Rightarrow> 'dt run" where
  "opened dir =
     \<lparr>jellyfin = connect (jellyfin_db_file dir),
      library = connect (library_db_file dir),
      calls = [],
      kodi_watched_missing_from_jellyfin = [],
      logging = []\<rparr>"

definition exit_rollback :: "'dt run \<Rightarrow> 'dt run" where
  "exit_rollback st = st\<lparr>library := rollback (library st), jellyfin := rollback (jellyfin st)\<rparr>"

definition exit_commit :: "'dt run \<Rightarrow> 'dt run" where
  "exit_commit st = st\<lparr>library := commit (library st), jellyfin := commit (jellyfin st)\<rparr>"

definition JellyfinData_open ::
  "(nat \<Rightarrow> bool) \<Rightarrow> jellyfin_data_dir \<Rightarrow> ('dt run \<Rightarrow> error option \<times> 'dt run) \<Rightarrow>
     error option \<times> 'dt run" where
  "JellyfinData_open fault dir body =
     (case body (opened dir) of
        (Some e, st) \<Rightarrow> (Some e, exit_rollback st)
      | (None, st) \<Rightarrow>
          (case execute fault Commit_jellyfin st of
             (Some e, st1) \<Rightarrow> (Some e, exit_rollback st1)
           | (None, st1) \<Rightarrow>
               (case execute fault Commit_library (st1\<lparr>jellyfin := commit (jellyfin st1)\<rparr>) of
                  (Some e, st2) \<Rightarrow> (Some e, exit_rollback st2)
                | (None, st2) \<Rightarrow>
                    (None, exit_commit (st2\<lparr>library := commit (library st2)\<rparr>)))))"

text \<open>The databases as they are on disk once the connections are closed.\<close>

definition after_close :: "'dt run \<Rightarrow> jellyfin_data_dir" where
  "after_close st = \<lparr>jellyfin_db_file = disk (jellyfin st), library_db_file = disk (library st)\<rparr>"

text \<open>The statements under \<^verbatim>\<open>with JellyfinData.open(...) as jellyfin_data\<close>.\<close>

definition with_body ::
  "(string \<Rightarrow> 'dt option) \<Rightarrow> ('dt \<Rightarrow> rat) \<Rightarrow> (nat \<Rightarrow> bool) \<Rightarrow>
     string list list \<Rightarrow> string \<Rightarrow> 'dt run \<Rightarrow> error option \<times> 'dt run" where
  "with_body fromisoformat timestamp fault kodi_tsv jellyfin_username jellyfin_data =
     (case get_user_by_name fault jellyfin_username jellyfin_data of
        (Inl e, st) \<Rightarrow> (Some e, st)
      | (Inr user, st) \<Rightarrow>
          (case for_loop fault timestamp user (parse fromisoformat kodi_tsv)
                  (st\<lparr>kodi_watched_missing_from_jellyfin := []\<rparr>) of
             (Some e, st') \<Rightarrow> (Some e, st')
           | (None, st') \<Rightarrow> report st'))"

definition kodi2jellyfin ::
  "(string \<Rightarrow> 'dt option) \<Rightarrow> ('dt \<Rightarrow> rat) \<Rightarrow> (nat \<Rightarrow> bool) \<Rightarrow>
     string list list \<Rightarrow> jellyfin_data_dir \<Rightarrow> string \<Rightarrow> error option \<times> 'dt run" where
  "kodi2jellyfin fromisoformat timestamp fault kodi_tsv dir jellyfin_username =
     JellyfinData_open fault dir
       (with_body fromisoformat timestamp fault kodi_tsv jellyfin_username)"

text \<open>The exit status of the process: an uncaught exception gives 1.\<close>

definition main ::
  "(string \<Rightarrow> 'dt option) \<Rightarrow> ('dt \<Rightarrow> rat) \<Rightarrow> (nat \<Rightarrow> bool) \<Rightarrow>
     string list list \<Rightarrow> jellyfin_data_dir \<Rightarrow> string \<Rightarrow> int" where
  "main fromisoformat timestamp fault kodi_tsv dir jellyfin_username =
     (case fst (kodi2jellyfin fromisoformat timestamp fault kodi_tsv dir jellyfin_username) of
        None \<Rightarrow> 0
      | Some e \<Rightarrow> 1)"

subsection \<open>Notions used to state the properties\<close>

text \<open>
  The effect of a statement that did not raise on the library database: only \<^verbatim>\<open>REPLACE\<close>
  writes.
\<close>

fun apply_statement :: "library_db \<Rightarrow> store_call \<Rightarrow> library_db" where
  "apply_statement db (Replace_UserDatas row) = replace_into_UserDatas row db"
| "apply_statement db (Select_Users name) = db"
| "apply_statement db (Select_TypedBaseItems p) = db"
| "apply_statement db (Select_UserDatas k) = db"
| "apply_statement db Commit_jellyfin = db"
| "apply_statement db Commit_library = db"

text \<open>A record that is not skipped and whose path the items table maps to the key \<open>k\<close>.\<close>

definition resolves :: "(string \<times> string option) list \<Rightarrow> 'dt KodiWatched \<Rightarrow> string \<Rightarrow> bool" where
  "resolves items kw k =
     (skip kw = Inr False \<and>
      (case path kw of Inl e \<Rightarrow> False | Inr p \<Rightarrow> user_data_key_for_path items p = Some k))"





text \<open>
  The rows that \<open>parse_row\<close> turns into a record: the four columns are in the header, the row
  has a value for \<^verbatim>\<open>lastPlayed\<close> and for \<^verbatim>\<open>playCount\<close>, and both values parse. The values of
  \<^verbatim>\<open>strPath\<close> and \<^verbatim>\<open>strFileName\<close> may be missing.
\<close>

definition accepted_row :: "(string \<Rightarrow> 'dt option) \<Rightarrow> row_dict \<Rightarrow> bool" where
  "accepted_row fromisoformat row =
     (row ''strPath'' \<noteq> None \<and> row ''strFileName'' \<noteq> None \<and>
      (case row ''lastPlayed'' of
         Some (Some s) \<Rightarrow> fromisoformat s \<noteq> None
       | _ \<Rightarrow> False) \<and>
      (case row ''playCount'' of
         Some (Some s) \<Rightarrow> int_of_str s \<noteq> Inl ValueError
       | _ \<Rightarrow> False))"

subsection \<open>Example data\<close>

text \<open>
  Concrete values on which the theorems below are exercised. A \<^verbatim>\<open>datetime\<close> is given by its
  POSIX time in seconds, as for a date-time in UTC, so that \<open>timestamp\<close> is the identity;
  \<open>example_fromisoformat\<close> reads the date-time strings the examples use. The library has one
  item, whose row in \<^verbatim>\<open>UserDatas\<close> is a favourite with a playback position.
\<close>

definition example_fromisoformat :: "string \<Rightarrow> rat option" where
  "example_fromisoformat s =
     (if s = ''2023-01-01T00:00:00'' then Some 1672531200
      else if s = ''2023-01-01T00:00:00.500000'' then Some (3345062401 / 2)
      else None)"

definition example_timestamp :: "rat \<Rightarrow> rat" where
  "example_timestamp t = t"

definition no_fault :: "nat \<Rightarrow> bool" where
  "no_fault n = False"

definition example_user :: JellyfinUser where
  "example_user = \<lparr>username = ''jfly'', internal_id = ''u1''\<rparr>"

definition example_dir :: jellyfin_data_dir where
  "example_dir =
     \<lparr>jellyfin_db_file = \<lparr>Users = [example_user]\<rparr>,
      library_db_file =
        \<lparr>TypedBaseItems = [(''/movies/foo.mkv'', Some ''key1'')],
         UserDatas = [''key1'' \<mapsto>
           \<lparr>key = ''key1'', userId = ''u1'', played = False, playCount = 0,
            lastPlayedDate = 0, isFavorite = True, playbackPositionTicks = 7\<rparr>]\<rparr>\<rparr>"

definition example_record :: "string \<Rightarrow> string \<Rightarrow> rat \<Rightarrow> int \<Rightarrow> rat KodiWatched" where
  "example_record d f t n =
     \<lparr>folder = Some d, file_name = Some f, last_played = Some t, play_count = n\<rparr>"

definition example_header :: "string list" where
  "example_header = [''strPath'', ''strFileName'', ''lastPlayed'', ''playCount'']"

definition example_tsv :: "string list list" where
  "example_tsv =
     [example_header,
      [''plugin://video/'', ''x.strm'', ''2023-01-01T00:00:00'', ''1''],
      [''/movies/'', ''foo.mkv'', ''2023-01-01T00:00:00'', ''3''],
      [''/movies/'', ''gone.mkv'', ''2023-01-01T00:00:00'', ''2''],
      [''/'', [], ''2023-01-01T00:00:00'', ''1'']]"


definition example_tsv_short :: "string list list" where
  "example_tsv_short =
     [[''lastPlayed'', ''playCount'', ''strPath'', ''strFileName''],
      [''2023-01-01T00:00:00'', ''1'']]"

definition example_tsv_blank :: "string list list" where
  "example_tsv_blank =
     [example_header, [], [''/movies/'', ''foo.mkv'', ''2023-01-01T00:00:00'', ''3'']]"

definition example_tsv_malformed :: "string list list" where
  "example_tsv_malformed =
     [example_header,
      [''/movies/'', ''foo.mkv'', ''2023-01-01T00:00:00'', ''3''],
      [''/movies/'', ''bar.mkv'', ''yesterday'', ''1'']]"

section \<open>Properties\<close>

subsection \<open>One iteration of the loop\<close>

lemma skip_eq:
  "skip kw = Inr b \<longleftrightarrow>
     (\<exists>d f. folder kw = Some d \<and> file_name kw = Some f \<and>
            b = (d @ f = ''/'' \<or> startswith d ''plugin://''))"
  by (auto simp: skip_def path_def and_then_def split: option.splits)

lemma process_skipped:
  "skip kw = Inr True \<Longrightarrow>
     process fault timestamp user kw st =
       (None, st\<lparr>logging := logging st @ [DEBUG_Skipping kw]\<rparr>)"
  by (simp add: process_def)

lemma process_unmatched:
  assumes "skip kw = Inr False" and "path kw = Inr p"
    and "user_data_key_for_path (TypedBaseItems (view (library st))) p = None"
    and "\<not> fault (length (calls st))"
  shows "process fault timestamp user kw st =
     (None, st\<lparr>calls := calls st @ [Select_TypedBaseItems p],
               kodi_watched_missing_from_jellyfin :=
                 kodi_watched_missing_from_jellyfin st @ [kw]\<rparr>)"
  using assms by (simp add: process_def get_user_data_key_for_path_def execute_def)

lemma process_applied:
  assumes "skip kw = Inr False" and "path kw = Inr p"
    and "user_data_key_for_path (TypedBaseItems (view (library st))) p = Some k"
    and "last_played kw = Some lp"
    and "process fault timestamp user kw st = (None, st')"
  shows "st' = st
     \<lparr>calls := calls st @ [Select_TypedBaseItems p,
         Replace_UserDatas
           (bound_row timestamp k (internal_id user) (0 < play_count kw) (play_count kw) lp)],
      library := (library st)\<lparr>view := replace_into_UserDatas
         (bound_row timestamp k (internal_id user) (0 < play_count kw) (play_count kw) lp)
         (view (library st))\<rparr>\<rparr>"
  using assms
  by (auto simp: process_def get_user_data_key_for_path_def execute_def upsert_user_data_def
      Let_def split: if_splits)

text \<open>
  C3. A record whose path is \<^verbatim>\<open>"/"\<close>, or whose folder starts with \<^verbatim>\<open>"plugin://"\<close>, is skipped
  before any store access: the iteration ends without an exception and changes nothing but
  the log, which gets the debug message. So no statement is sent (no lookup of the path, no
  \<^verbatim>\<open>REPLACE\<close>), the stores are as before and the record is not added to the list of unmatched
  records. Nothing is asked of \<open>last_played\<close> and \<open>play_count\<close>. The record's \<open>folder\<close> and
  \<open>file_name\<close> are strings, as the dataclass declares them.
\<close>

theorem skipped_record_touches_no_store:
  assumes "folder kw = Some d" and "file_name kw = Some f"
    and "d @ f = ''/'' \<or> startswith d ''plugin://''"
  shows "process fault timestamp user kw st =
           (None, st\<lparr>logging := logging st @ [DEBUG_Skipping kw]\<rparr>)
       \<and> calls (snd (process fault timestamp user kw st)) = calls st
       \<and> library (snd (process fault timestamp user kw st)) = library st
       \<and> kodi_watched_missing_from_jellyfin (snd (process fault timestamp user kw st)) =
           kodi_watched_missing_from_jellyfin st"
proof -
  have "skip kw = Inr True"
    using assms by (simp add: skip_eq)
  then show ?thesis
    by (simp add: process_skipped)
qed

theorem skipped_record_touches_no_store_witness:
  "startswith ''plugin://video/'' ''plugin://''
   \<and> process no_fault example_timestamp example_user
         (example_record ''plugin://video/'' ''x.strm'' 1672531200 3) (opened example_dir) =
       (None, (opened example_dir)
          \<lparr>logging := [DEBUG_Skipping (example_record ''plugin://video/'' ''x.strm'' 1672531200 3)]\<rparr>)
   \<and> calls (snd (process no_fault example_timestamp example_user
         (example_record ''plugin://video/'' ''x.strm'' 1672531200 3) (opened example_dir))) = []"
proof -
  have p: "startswith ''plugin://video/'' ''plugin://''"
    by (simp add: startswith_def)
  have "folder (example_record ''plugin://video/'' ''x.strm'' 1672531200 3) = Some ''plugin://video/''"
    and "file_name (example_record ''plugin://video/'' ''x.strm'' 1672531200 3) = Some ''x.strm''"
    by (simp_all add: example_record_def)
  from skipped_record_touches_no_store[OF this, of no_fault example_timestamp example_user
      "opened example_dir"] p
  show ?thesis
    by (simp add: opened_def)
qed

lemmas example_defs = example_record_def example_dir_def example_user_def example_timestamp_def
  example_fromisoformat_def example_header_def no_fault_def opened_def connect_def

lemmas parse_defs = and_then_def parse_def DictReader_def dict_of_def parse_row_def getitem_def
  py_fromisoformat_def py_int_def int_of_str_def strip_def isspace_def int_of_digits_def
  isdigit_def digits_value_def digit_value_def int_max_str_digits_def

lemmas run_defs = kodi2jellyfin_def JellyfinData_open_def with_body_def get_user_by_name_def
  report_def exit_rollback_def exit_commit_def rollback_def commit_def after_close_def main_def

lemmas engine_defs = process_def skip_def path_def and_then_def startswith_def
  get_user_data_key_for_path_def user_data_key_for_path_def execute_def upsert_user_data_def
  bound_row_def adapt_datetime_epoch_def replace_into_UserDatas_def Let_def

lemma half_second: "int_of_float (3345062401 / 2) = 1672531200"
  by code_simp

lemma whole_second: "int_of_float 1672531200 = 1672531200"
  by (simp add: int_of_float_def)

text \<open>
  C1 (amended). When a record that is not skipped has a path that resolves to a key, and the
  iteration ends without an exception, the row of \<^verbatim>\<open>UserDatas\<close> for that key is exactly:
  the key, the user's internal id, \<open>played = (play_count > 0)\<close>, the record's play count,
  \<open>isFavorite = False\<close> and \<open>playbackPositionTicks = 0\<close>, whatever row the key had before;
  and \<open>lastPlayedDate\<close> is the record's \<open>last_played\<close> as the registered adapter stores it,
  \<^verbatim>\<open>int(last_played.timestamp())\<close>: whole Unix seconds, the fraction of a second dropped.
\<close>

theorem upsert_replaces_row:
  assumes "skip kw = Inr False" and "path kw = Inr p"
    and "user_data_key_for_path (TypedBaseItems (view (library st))) p = Some k"
    and "last_played kw = Some lp"
    and "process fault timestamp user kw st = (None, st')"
  shows "UserDatas (view (library st')) k =
     Some \<lparr>key = k, userId = internal_id user, played = (0 < play_count kw),
           playCount = play_count kw, lastPlayedDate = int_of_float (timestamp lp),
           isFavorite = False, playbackPositionTicks = 0\<rparr>"
  using process_applied[OF assms]
  by (simp add: replace_into_UserDatas_def bound_row_def adapt_datetime_epoch_def)

theorem upsert_replaces_row_witness:
  "UserDatas (library_db_file example_dir) ''key1'' =
     Some \<lparr>key = ''key1'', userId = ''u1'', played = False, playCount = 0,
           lastPlayedDate = 0, isFavorite = True, playbackPositionTicks = 7\<rparr>
   \<and> fst (process no_fault example_timestamp example_user
         (example_record ''/movies/'' ''foo.mkv'' 1672531200 3) (opened example_dir)) = None
   \<and> UserDatas (view (library (snd (process no_fault example_timestamp example_user
         (example_record ''/movies/'' ''foo.mkv'' 1672531200 3) (opened example_dir))))) ''key1'' =
     Some \<lparr>key = ''key1'', userId = ''u1'', played = True, playCount = 3,
           lastPlayedDate = 1672531200, isFavorite = False, playbackPositionTicks = 0\<rparr>"
proof -
  let ?kw = "example_record ''/movies/'' ''foo.mkv'' 1672531200 3"
  let ?st = "opened example_dir :: rat run"
  have h1: "skip ?kw = Inr False"
    by (simp add: engine_defs example_defs)
  have h2: "path ?kw = Inr ''/movies/foo.mkv''"
    by (simp add: engine_defs example_defs)
  have h3: "user_data_key_for_path (TypedBaseItems (view (library ?st))) ''/movies/foo.mkv'' =
      Some ''key1''"
    by (simp add: engine_defs example_defs)
  have h4: "last_played ?kw = Some 1672531200"
    by (simp add: example_defs)
  have h5: "fst (process no_fault example_timestamp example_user ?kw ?st) = None"
    by (simp add: engine_defs example_defs)
  then have h6: "process no_fault example_timestamp example_user ?kw ?st =
      (None, snd (process no_fault example_timestamp example_user ?kw ?st))"
    by (metis prod.collapse)
  from upsert_replaces_row[OF h1 h2 h3 h4 h6] h5 show ?thesis
    by (simp add: example_defs whole_second)
qed

text \<open>
  C1 as stated fails on \<open>lastPlayedDate\<close>: a record last played at half a second past
  2023-01-01T00:00:00Z is stored with \<open>lastPlayedDate = 1672531200\<close>, which is not the time
  of the record.
\<close>

theorem lastPlayedDate_counterexample:
  "last_played (example_record ''/movies/'' ''foo.mkv'' (3345062401 / 2) 3) = Some (3345062401 / 2)
   \<and> fst (process no_fault example_timestamp example_user
         (example_record ''/movies/'' ''foo.mkv'' (3345062401 / 2) 3) (opened example_dir)) = None
   \<and> map_option lastPlayedDate
        (UserDatas (view (library (snd (process no_fault example_timestamp example_user
           (example_record ''/movies/'' ''foo.mkv'' (3345062401 / 2) 3) (opened example_dir)))))
           ''key1'') = Some 1672531200
   \<and> example_timestamp (3345062401 / 2) \<noteq> rat_of_int 1672531200"
  by (simp add: engine_defs example_defs half_second)

text \<open>
  C5. Applying the same record twice in a row, for the same user, leaves the library store
  after the second application as it was after the first: in particular the row of the
  resolved key is the same.
\<close>

theorem applying_twice_is_idempotent:
  assumes "process fault timestamp user kw st = (None, st1)"
    and "process fault timestamp user kw st1 = (None, st2)"
  shows "library st2 = library st1"
  using assms
  by (auto simp: process_def get_user_data_key_for_path_def execute_def upsert_user_data_def
      Let_def replace_into_UserDatas_def
      split: sum.splits bool.splits if_splits option.splits prod.splits)

theorem applying_twice_is_idempotent_witness:
  "fst (process no_fault example_timestamp example_user
         (example_record ''/movies/'' ''foo.mkv'' 1672531200 3) (opened example_dir)) = None
   \<and> fst (process no_fault example_timestamp example_user
         (example_record ''/movies/'' ''foo.mkv'' 1672531200 3)
         (snd (process no_fault example_timestamp example_user
            (example_record ''/movies/'' ''foo.mkv'' 1672531200 3) (opened example_dir)))) = None
   \<and> library (snd (process no_fault example_timestamp example_user
         (example_record ''/movies/'' ''foo.mkv'' 1672531200 3)
         (snd (process no_fault example_timestamp example_user
            (example_record ''/movies/'' ''foo.mkv'' 1672531200 3) (opened example_dir))))) =
       library (snd (process no_fault example_timestamp example_user
         (example_record ''/movies/'' ''foo.mkv'' 1672531200 3) (opened example_dir)))
   \<and> map_option playCount (UserDatas (view (library (snd (process no_fault example_timestamp
         example_user (example_record ''/movies/'' ''foo.mkv'' 1672531200 3)
         (opened example_dir))))) ''key1'') = Some 3"
proof -
  let ?kw = "example_record ''/movies/'' ''foo.mkv'' 1672531200 3"
  let ?st = "opened example_dir :: rat run"
  let ?st1 = "snd (process no_fault example_timestamp example_user ?kw ?st)"
  let ?st2 = "snd (process no_fault example_timestamp example_user ?kw ?st1)"
  have h1: "fst (process no_fault example_timestamp example_user ?kw ?st) = None"
    by (simp add: engine_defs example_defs)
  have h2: "fst (process no_fault example_timestamp example_user ?kw ?st1) = None"
    by (simp add: engine_defs example_defs)
  have h3: "map_option playCount (UserDatas (view (library ?st1)) ''key1'') = Some 3"
    by (simp add: engine_defs example_defs)
  have e1: "process no_fault example_timestamp example_user ?kw ?st = (None, ?st1)"
    using h1 by (metis prod.collapse)
  have e2: "process no_fault example_timestamp example_user ?kw ?st1 = (None, ?st2)"
    using h2 by (metis prod.collapse)
  from applying_twice_is_idempotent[OF e1 e2] h1 h2 h3 show ?thesis
    by simp
qed

subsection \<open>The whole run\<close>

lemma process_frame:
  assumes "process fault timestamp user kw st = (r, st')"
  shows "jellyfin st' = jellyfin st \<and> disk (library st') = disk (library st) \<and>
         TypedBaseItems (view (library st')) = TypedBaseItems (view (library st))"
  using assms
  by (auto simp: process_def get_user_data_key_for_path_def execute_def upsert_user_data_def
      Let_def replace_into_UserDatas_def
      split: sum.splits bool.splits if_splits option.splits prod.splits)

lemma process_effect:
  assumes "process fault timestamp user kw st = (None, st')"
  shows "\<exists>cs. calls st' = calls st @ cs \<and>
           view (library st') = foldl apply_statement (view (library st)) cs"
  using assms
  by (auto simp: process_def get_user_data_key_for_path_def execute_def upsert_user_data_def
      Let_def
      split: sum.splits bool.splits if_splits option.splits prod.splits)

lemma for_loop_frame:
  assumes "for_loop fault timestamp user outcomes st = (r, st')"
  shows "jellyfin st' = jellyfin st \<and> disk (library st') = disk (library st) \<and>
         TypedBaseItems (view (library st')) = TypedBaseItems (view (library st))"
  using assms
proof (induction fault timestamp user outcomes st rule: for_loop.induct)
  case (3 fault timestamp user kw rest st)
  obtain r1 st1 where p: "process fault timestamp user kw st = (r1, st1)"
    by (cases "process fault timestamp user kw st")
  with 3 process_frame[OF p] show ?case
    by (cases r1) simp_all
qed simp_all

lemma for_loop_effect:
  assumes "for_loop fault timestamp user outcomes st = (None, st')"
  shows "\<exists>cs. calls st' = calls st @ cs \<and>
           view (library st') = foldl apply_statement (view (library st)) cs"
  using assms
proof (induction fault timestamp user outcomes st rule: for_loop.induct)
  case (3 fault timestamp user kw rest st)
  obtain r1 st1 where p: "process fault timestamp user kw st = (r1, st1)"
    by (cases "process fault timestamp user kw st")
  with 3 have r1: "r1 = None" and l: "for_loop fault timestamp user rest st1 = (None, st')"
    by (auto split: option.splits)
  from process_effect p r1 obtain cs1 where
    c1: "calls st1 = calls st @ cs1"
      "view (library st1) = foldl apply_statement (view (library st)) cs1"
    by blast
  from 3(1)[OF p[unfolded r1, symmetric] refl l] obtain cs2 where
    c2: "calls st' = calls st1 @ cs2"
      "view (library st') = foldl apply_statement (view (library st1)) cs2"
    by blast
  from c1 c2 have "calls st' = calls st @ (cs1 @ cs2) \<and>
      view (library st') = foldl apply_statement (view (library st)) (cs1 @ cs2)"
    by simp
  then show ?case by blast
qed simp_all

lemma get_user_by_name_frame:
  assumes "get_user_by_name fault name st = (r, st')"
  shows "jellyfin st' = jellyfin st \<and> library st' = library st \<and>
         calls st' = calls st @ [Select_Users name]"
  using assms
  by (auto simp: get_user_by_name_def execute_def split: if_splits option.splits)

lemma report_frame:
  assumes "report st = (r, st')"
  shows "jellyfin st' = jellyfin st \<and> library st' = library st \<and> calls st' = calls st"
  using assms
  by (auto simp: report_def split: if_splits sum.splits)

lemma with_body_frame:
  assumes "with_body fromisoformat timestamp fault kodi_tsv name st = (r, st')"
  shows "jellyfin st' = jellyfin st \<and> disk (library st') = disk (library st) \<and>
         TypedBaseItems (view (library st')) = TypedBaseItems (view (library st))"
  using assms
  by (auto simp: with_body_def split: prod.splits sum.splits option.splits
      dest!: get_user_by_name_frame for_loop_frame report_frame)

lemma with_body_effect:
  assumes "with_body fromisoformat timestamp fault kodi_tsv name st = (None, st')"
  shows "\<exists>cs. calls st' = calls st @ cs \<and>
           view (library st') = foldl apply_statement (view (library st)) cs"
proof -
  from assms obtain user st1 st2 where
    u: "get_user_by_name fault name st = (Inr user, st1)" and
    l: "for_loop fault timestamp user (parse fromisoformat kodi_tsv)
          (st1\<lparr>kodi_watched_missing_from_jellyfin := []\<rparr>) = (None, st2)" and
    r: "report st2 = (None, st')"
    by (auto simp: with_body_def split: prod.splits sum.splits option.splits)
  from for_loop_effect[OF l] obtain cs where
    cs: "calls st2 = calls st1 @ cs"
      "view (library st2) = foldl apply_statement (view (library st1)) cs"
    by auto
  from get_user_by_name_frame[OF u] report_frame[OF r] cs
  have "calls st' = calls st @ (Select_Users name # cs) \<and>
      view (library st') = foldl apply_statement (view (library st)) (Select_Users name # cs)"
    by simp
  then show ?thesis by blast
qed

lemma files_after_run:
  assumes "kodi2jellyfin fromisoformat timestamp fault kodi_tsv dir name = (r, st)"
  shows "after_close st =
     (if r = None
      then dir\<lparr>library_db_file := foldl apply_statement (library_db_file dir) (calls st)\<rparr>
      else dir)"
proof -
  obtain r1 st1 where b: "with_body fromisoformat timestamp fault kodi_tsv name (opened dir) = (r1, st1)"
    by (cases "with_body fromisoformat timestamp fault kodi_tsv name (opened dir :: 'a run)")
  note f = with_body_frame[OF b]
  show ?thesis
  proof (cases r1)
    case (Some e)
    with assms b f show ?thesis
      by (auto simp: kodi2jellyfin_def JellyfinData_open_def after_close_def exit_rollback_def rollback_def opened_def connect_def)
  next
    case None
    from with_body_effect[OF b[unfolded None]] obtain cs where
      cs: "calls st1 = cs" "view (library st1) = foldl apply_statement (library_db_file dir) cs"
      by (auto simp: opened_def connect_def)
    with assms b f None show ?thesis
      by (auto simp: kodi2jellyfin_def JellyfinData_open_def after_close_def exit_rollback_def exit_commit_def rollback_def commit_def execute_def opened_def connect_def split: if_splits)
  qed
qed


text \<open>
  C2. A run that raises an exception, whichever it is and wherever it is raised (a malformed
  row, the user not found, a statement or a commit that fails), leaves the two database
  files as they were: nothing of what was written before the exception is visible. A run that
  raises none leaves the library file as it was with the \<^verbatim>\<open>REPLACE\<close> statements of the
  whole pass applied in order, and the users file as it was.
\<close>

theorem no_partial_commit:
  assumes "kodi2jellyfin fromisoformat timestamp fault kodi_tsv dir name = (r, st)"
  shows "after_close st =
     (if r = None
      then dir\<lparr>library_db_file := foldl apply_statement (library_db_file dir) (calls st)\<rparr>
      else dir)"
  using assms by (rule files_after_run)

lemma parse_malformed:
  "parse example_fromisoformat example_tsv_malformed =
     [Inr (example_record ''/movies/'' ''foo.mkv'' 1672531200 3), Inl ValueError]"
  by (simp add: parse_defs example_defs example_tsv_malformed_def)

lemma run_malformed:
  "kodi2jellyfin example_fromisoformat example_timestamp no_fault example_tsv_malformed
     example_dir ''jfly'' =
   (Some ValueError, (opened example_dir)
      \<lparr>calls := [Select_Users ''jfly'', Select_TypedBaseItems ''/movies/foo.mkv'',
         Replace_UserDatas \<lparr>key = ''key1'', userId = ''u1'', played = True, playCount = 3,
           lastPlayedDate = 1672531200, isFavorite = False, playbackPositionTicks = 0\<rparr>]\<rparr>)"
  by (simp add: run_defs parse_malformed engine_defs example_defs whole_second)

theorem no_partial_commit_witness:
  "kodi2jellyfin example_fromisoformat example_timestamp no_fault example_tsv_malformed
     example_dir ''jfly'' =
   (Some ValueError, (opened example_dir)
      \<lparr>calls := [Select_Users ''jfly'', Select_TypedBaseItems ''/movies/foo.mkv'',
         Replace_UserDatas \<lparr>key = ''key1'', userId = ''u1'', played = True, playCount = 3,
           lastPlayedDate = 1672531200, isFavorite = False, playbackPositionTicks = 0\<rparr>]\<rparr>)
   \<and> after_close ((opened example_dir :: rat run)
      \<lparr>calls := [Select_Users ''jfly'', Select_TypedBaseItems ''/movies/foo.mkv'',
         Replace_UserDatas \<lparr>key = ''key1'', userId = ''u1'', played = True, playCount = 3,
           lastPlayedDate = 1672531200, isFavorite = False, playbackPositionTicks = 0\<rparr>]\<rparr>) =
       example_dir"
  using no_partial_commit[OF run_malformed] run_malformed by simp

text \<open>
  C6. When no row of \<^verbatim>\<open>Users\<close> has exactly the given user name (and the \<^verbatim>\<open>SELECT\<close> itself does
  not fail), the lookup raises: \<^verbatim>\<open>fetchone\<close> returns \<^verbatim>\<open>None\<close> and subscripting it is a
  \<^verbatim>\<open>TypeError\<close>, the exception that stands for the spec's \<open>UserNotFound\<close>. It ends the run
  (exit status 1) when the only statement sent is that \<^verbatim>\<open>SELECT\<close>: no row of the input has
  been read, no \<^verbatim>\<open>REPLACE\<close> sent, and the stores are as they were opened.
\<close>

theorem user_not_found_is_fatal:
  assumes "name \<notin> set (map username (Users (jellyfin_db_file dir)))" and "\<not> fault 0"
  shows "get_user_by_name fault name (opened dir :: 'dt run) =
           (Inl TypeError, (opened dir)\<lparr>calls := [Select_Users name]\<rparr>)
       \<and> kodi2jellyfin (fromisoformat :: string \<Rightarrow> 'dt option) timestamp fault kodi_tsv dir name =
           (Some TypeError, (opened dir)\<lparr>calls := [Select_Users name]\<rparr>)
       \<and> main fromisoformat timestamp fault kodi_tsv dir name = 1"
proof -
  from assms(1) have "find (\<lambda>row. username row = name) (Users (jellyfin_db_file dir)) = None"
    by (auto simp: find_None_iff)
  with assms(2) have g: "get_user_by_name fault name (opened dir :: 'dt run) =
           (Inl TypeError, (opened dir)\<lparr>calls := [Select_Users name]\<rparr>)"
    by (simp add: get_user_by_name_def execute_def opened_def connect_def)
  then have k: "kodi2jellyfin fromisoformat timestamp fault kodi_tsv dir name =
           (Some TypeError, (opened dir)\<lparr>calls := [Select_Users name]\<rparr>)"
    by (simp add: kodi2jellyfin_def JellyfinData_open_def with_body_def exit_rollback_def
        rollback_def opened_def connect_def)
  from g k show ?thesis
    by (simp add: main_def)
qed

theorem user_not_found_is_fatal_witness:
  "''nobody'' \<notin> set (map username (Users (jellyfin_db_file example_dir)))
   \<and> kodi2jellyfin example_fromisoformat example_timestamp no_fault example_tsv_malformed
         example_dir ''nobody'' =
       (Some TypeError, (opened example_dir)\<lparr>calls := [Select_Users ''nobody'']\<rparr>)
   \<and> main example_fromisoformat example_timestamp no_fault example_tsv_malformed
         example_dir ''nobody'' = 1"
proof -
  have h1: "''nobody'' \<notin> set (map username (Users (jellyfin_db_file example_dir)))"
    by (simp add: example_defs)
  have h2: "\<not> no_fault 0"
    by (simp add: no_fault_def)
  from user_not_found_is_fatal[where fault = no_fault and fromisoformat = example_fromisoformat
      and timestamp = example_timestamp and kodi_tsv = example_tsv_malformed, OF h1 h2] h1
  show ?thesis by simp
qed

lemma parse_row_last_played:
  "parse_row fromisoformat row = Inr kw \<Longrightarrow> last_played kw \<noteq> None"
  by (auto simp: parse_row_def and_then_def split: sum.splits)

lemma parse_row_error:
  "parse_row fromisoformat row = Inl e \<Longrightarrow> e \<in> {KeyError, TypeError, ValueError}"
  by (auto simp: parse_row_def and_then_def getitem_def py_fromisoformat_def py_int_def
      int_of_str_def int_of_digits_def map_sum_def
      split: sum.splits option.splits list.splits if_splits)

lemma yield_rows_last_played:
  "Inr kw \<in> set (yield_rows fromisoformat rows) \<Longrightarrow> last_played kw \<noteq> None"
  by (induction rows) (auto split: sum.splits dest: parse_row_last_played)

lemma yield_rows_error:
  "Inl e \<in> set (yield_rows fromisoformat rows) \<Longrightarrow> e \<in> {KeyError, TypeError, ValueError}"
  by (induction rows) (auto split: sum.splits dest: parse_row_error)

lemma process_no_assertion:
  "last_played kw \<noteq> None \<Longrightarrow> fst (process fault timestamp user kw st) \<noteq> Some AssertionError"
  by (auto simp: process_def skip_def path_def and_then_def get_user_data_key_for_path_def
      execute_def upsert_user_data_def Let_def
      split: sum.splits bool.splits if_splits option.splits prod.splits)

lemma for_loop_no_assertion:
  assumes "\<And>kw. Inr kw \<in> set outcomes \<Longrightarrow> last_played kw \<noteq> None"
    and "Inl AssertionError \<notin> set outcomes"
  shows "fst (for_loop fault timestamp user outcomes st) \<noteq> Some AssertionError"
  using assms
proof (induction fault timestamp user outcomes st rule: for_loop.induct)
  case (3 fault timestamp user kw rest st)
  obtain r1 st1 where p: "process fault timestamp user kw st = (r1, st1)"
    by (cases "process fault timestamp user kw st")
  from 3(2) have "last_played kw \<noteq> None" by simp
  from process_no_assertion[OF this, of fault timestamp user st] p
  have r1: "r1 \<noteq> Some AssertionError" by simp
  show ?case
  proof (cases r1)
    case None
    with 3 p show ?thesis by simp
  next
    case (Some e)
    with r1 p show ?thesis by simp
  qed
qed auto

lemma path_error: "path kw = Inl e \<Longrightarrow> e = TypeError"
  by (auto simp: path_def split: option.splits)

lemma warning_text_error: "warning_text warning kws = Inl e \<Longrightarrow> e = TypeError"
  by (induction kws arbitrary: warning)
    (auto simp: and_then_def split: sum.splits dest: path_error)

lemma for_loop_parse_no_assertion:
  "for_loop fault timestamp user (parse fromisoformat kodi_tsv) st = (Some e, st') \<Longrightarrow>
     e \<noteq> AssertionError"
proof -
  have a: "\<And>kw. Inr kw \<in> set (parse fromisoformat kodi_tsv) \<Longrightarrow> last_played kw \<noteq> None"
    by (auto simp: parse_def dest: yield_rows_last_played)
  have b: "Inl AssertionError \<notin> set (parse fromisoformat kodi_tsv)"
    by (auto simp: parse_def dest: yield_rows_error)
  assume "for_loop fault timestamp user (parse fromisoformat kodi_tsv) st = (Some e, st')"
  with for_loop_no_assertion[OF a b, of fault timestamp user st] show ?thesis
    by auto
qed

lemma report_error: "report st = (Some e, st') \<Longrightarrow> e = TypeError"
  by (auto simp: report_def split: sum.splits if_splits dest: warning_text_error)

lemma with_body_no_assertion:
  "with_body fromisoformat timestamp fault kodi_tsv name st = (Some e, st') \<Longrightarrow>
     e \<noteq> AssertionError"
  by (auto simp: with_body_def get_user_by_name_def execute_def
      split: prod.splits sum.splits option.splits if_splits
      dest: for_loop_parse_no_assertion report_error)

text \<open>
  C9. Every record that \<open>parse\<close> yields has a \<open>last_played\<close> that is not \<^verbatim>\<open>None\<close>, and no run
  raises \<^verbatim>\<open>AssertionError\<close>, whatever the input, the stores and the failures of the
  statements: the assertion before the upsert cannot fail.
\<close>

theorem assertion_never_fails:
  "(\<forall>kw. Inr kw \<in> set (parse fromisoformat kodi_tsv) \<longrightarrow> last_played kw \<noteq> None)
   \<and> fst (kodi2jellyfin fromisoformat timestamp fault kodi_tsv dir name) \<noteq> Some AssertionError"
proof -
  have a: "\<forall>kw. Inr kw \<in> set (parse fromisoformat kodi_tsv) \<longrightarrow> last_played kw \<noteq> None"
    by (auto simp: parse_def dest: yield_rows_last_played)
  have "fst (kodi2jellyfin fromisoformat timestamp fault kodi_tsv dir name) \<noteq> Some AssertionError"
    by (auto simp: kodi2jellyfin_def JellyfinData_open_def execute_def
        split: prod.splits option.splits if_splits dest: with_body_no_assertion)
  with a show ?thesis by blast
qed

theorem assertion_never_fails_witness:
  "Inr (example_record ''/movies/'' ''foo.mkv'' 1672531200 3)
      \<in> set (parse example_fromisoformat example_tsv_malformed)
   \<and> last_played (example_record ''/movies/'' ''foo.mkv'' 1672531200 3) \<noteq> None
   \<and> fst (kodi2jellyfin example_fromisoformat example_timestamp no_fault example_tsv_malformed
         example_dir ''jfly'') \<noteq> Some AssertionError"
proof -
  have m: "Inr (example_record ''/movies/'' ''foo.mkv'' 1672531200 3)
      \<in> set (parse example_fromisoformat example_tsv_malformed)"
    by (simp add: parse_malformed)
  from assertion_never_fails[of example_fromisoformat example_tsv_malformed example_timestamp
      no_fault example_dir "''jfly''"] m
  show ?thesis by blast
qed


lemma process_calls:
  assumes "process fault timestamp user kw st = (r, st')"
  shows "\<exists>cs. calls st' = calls st @ cs \<and>
     (\<forall>row. Replace_UserDatas row \<in> set cs \<longrightarrow>
        resolves (TypedBaseItems (view (library st))) kw (key row))"
  using assms
  by (auto simp: process_def get_user_data_key_for_path_def execute_def upsert_user_data_def
      Let_def resolves_def bound_row_def
      split: sum.splits bool.splits if_splits option.splits prod.splits)

lemma for_loop_calls:
  assumes "for_loop fault timestamp user outcomes st = (r, st')"
  shows "\<exists>cs. calls st' = calls st @ cs \<and>
     (\<forall>row. Replace_UserDatas row \<in> set cs \<longrightarrow>
        (\<exists>kw. Inr kw \<in> set outcomes \<and>
              resolves (TypedBaseItems (view (library st))) kw (key row)))"
  using assms
proof (induction fault timestamp user outcomes st rule: for_loop.induct)
  case (3 fault timestamp user kw rest st)
  obtain r1 st1 where p: "process fault timestamp user kw st = (r1, st1)"
    by (cases "process fault timestamp user kw st")
  from process_calls[OF p] obtain cs1 where
    c1: "calls st1 = calls st @ cs1"
      "\<forall>row. Replace_UserDatas row \<in> set cs1 \<longrightarrow>
         resolves (TypedBaseItems (view (library st))) kw (key row)"
    by blast
  show ?case
  proof (cases r1)
    case (Some e)
    with 3(2) p have "st' = st1" by simp
    with c1 show ?thesis by auto
  next
    case None
    with 3(2) p have l: "for_loop fault timestamp user rest st1 = (r, st')" by simp
    from 3(1)[OF p[unfolded None, symmetric] refl l] obtain cs2 where
      c2: "calls st' = calls st1 @ cs2"
        "\<forall>row. Replace_UserDatas row \<in> set cs2 \<longrightarrow>
           (\<exists>kw. Inr kw \<in> set rest \<and>
              resolves (TypedBaseItems (view (library st1))) kw (key row))"
      by blast
    from process_frame[OF p]
    have t: "TypedBaseItems (view (library st1)) = TypedBaseItems (view (library st))"
      by simp
    have "calls st' = calls st @ (cs1 @ cs2)"
      using c1 c2 by simp
    moreover have "\<forall>row. Replace_UserDatas row \<in> set (cs1 @ cs2) \<longrightarrow>
        (\<exists>kw'. Inr kw' \<in> set (Inr kw # rest) \<and>
              resolves (TypedBaseItems (view (library st))) kw' (key row))"
      using c1(2) c2(2) t by auto
    ultimately show ?thesis by blast
  qed
qed auto

lemma with_body_calls:
  assumes "with_body fromisoformat timestamp fault kodi_tsv name st = (r, st')"
  shows "\<exists>cs. calls st' = calls st @ cs \<and>
     (\<forall>row. Replace_UserDatas row \<in> set cs \<longrightarrow>
        (\<exists>kw. Inr kw \<in> set (parse fromisoformat kodi_tsv) \<and>
              resolves (TypedBaseItems (view (library st))) kw (key row)))"
proof (cases "get_user_by_name fault name st")
  case (Pair u st1)
  note g = get_user_by_name_frame[OF Pair]
  show ?thesis
  proof (cases u)
    case (Inl e)
    with Pair assms g show ?thesis
      by (auto simp: with_body_def)
  next
    case (Inr user)
    obtain r2 st2 where l: "for_loop fault timestamp user (parse fromisoformat kodi_tsv)
        (st1\<lparr>kodi_watched_missing_from_jellyfin := []\<rparr>) = (r2, st2)"
      by (cases "for_loop fault timestamp user (parse fromisoformat kodi_tsv)
        (st1\<lparr>kodi_watched_missing_from_jellyfin := []\<rparr>)")
    from for_loop_calls[OF l] g obtain cs where
      cs: "calls st2 = calls st @ Select_Users name # cs"
        "\<forall>row. Replace_UserDatas row \<in> set cs \<longrightarrow>
           (\<exists>kw. Inr kw \<in> set (parse fromisoformat kodi_tsv) \<and>
              resolves (TypedBaseItems (view (library st))) kw (key row))"
      by auto
    have "calls st' = calls st2"
      using assms Pair Inr l
      by (auto simp: with_body_def split: option.splits dest: report_frame)
    with cs have "calls st' = calls st @ (Select_Users name # cs) \<and>
       (\<forall>row. Replace_UserDatas row \<in> set (Select_Users name # cs) \<longrightarrow>
        (\<exists>kw. Inr kw \<in> set (parse fromisoformat kodi_tsv) \<and>
              resolves (TypedBaseItems (view (library st))) kw (key row)))"
      by auto
    then show ?thesis by blast
  qed
qed

lemma run_calls:
  assumes "kodi2jellyfin fromisoformat timestamp fault kodi_tsv dir name = (r, st)"
    and "Replace_UserDatas row \<in> set (calls st)"
  shows "\<exists>kw. Inr kw \<in> set (parse fromisoformat kodi_tsv) \<and>
              resolves (TypedBaseItems (library_db_file dir)) kw (key row)"
proof -
  obtain r1 st1 where b: "with_body fromisoformat timestamp fault kodi_tsv name (opened dir) = (r1, st1)"
    by (cases "with_body fromisoformat timestamp fault kodi_tsv name (opened dir :: 'a run)")
  from with_body_calls[OF b] have
    w: "\<forall>row. Replace_UserDatas row \<in> set (calls st1) \<longrightarrow>
        (\<exists>kw. Inr kw \<in> set (parse fromisoformat kodi_tsv) \<and>
              resolves (TypedBaseItems (library_db_file dir)) kw (key row))"
    by (auto simp: opened_def connect_def)
  have "set (calls st) \<subseteq> set (calls st1) \<union> {Commit_jellyfin, Commit_library}"
    using assms(1) b
    by (auto simp: kodi2jellyfin_def JellyfinData_open_def exit_rollback_def exit_commit_def
        execute_def split: option.splits if_splits)
  with assms(2) w show ?thesis by auto
qed

lemma foldl_apply_items:
  "TypedBaseItems (foldl apply_statement db cs) = TypedBaseItems db"
proof (induction cs arbitrary: db)
  case (Cons c cs)
  then show ?case by (cases c) (simp_all add: replace_into_UserDatas_def)
qed simp

lemma foldl_apply_other_key:
  assumes "\<And>row. Replace_UserDatas row \<in> set cs \<Longrightarrow> key row \<noteq> k"
  shows "UserDatas (foldl apply_statement db cs) k = UserDatas db k"
  using assms
proof (induction cs arbitrary: db)
  case (Cons c cs)
  then show ?case by (cases c) (auto simp: replace_into_UserDatas_def)
qed simp

text \<open>
  C10. Over a whole run, however it ends, the users file and the table \<^verbatim>\<open>TypedBaseItems\<close> are
  as they were; every \<^verbatim>\<open>REPLACE\<close> sent (the only statement that writes) is for a key to which
  the path of some record of the input, not skipped, resolves; and a key whose row of
  \<^verbatim>\<open>UserDatas\<close> differs after the run is such a key, so the rows of all other keys are
  unchanged.
\<close>

theorem run_writes_only_resolved_rows:
  assumes "kodi2jellyfin fromisoformat timestamp fault kodi_tsv dir name = (r, st)"
  shows "jellyfin_db_file (after_close st) = jellyfin_db_file dir
       \<and> TypedBaseItems (library_db_file (after_close st)) = TypedBaseItems (library_db_file dir)
       \<and> (\<forall>row. Replace_UserDatas row \<in> set (calls st) \<longrightarrow>
            (\<exists>kw. Inr kw \<in> set (parse fromisoformat kodi_tsv) \<and>
                  resolves (TypedBaseItems (library_db_file dir)) kw (key row)))
       \<and> (\<forall>k. UserDatas (library_db_file (after_close st)) k \<noteq> UserDatas (library_db_file dir) k \<longrightarrow>
            (\<exists>kw. Inr kw \<in> set (parse fromisoformat kodi_tsv) \<and>
                  resolves (TypedBaseItems (library_db_file dir)) kw k))"
proof -
  note c = files_after_run[OF assms]
  have a: "jellyfin_db_file (after_close st) = jellyfin_db_file dir"
    using c by (simp split: if_splits)
  have b: "TypedBaseItems (library_db_file (after_close st)) = TypedBaseItems (library_db_file dir)"
    using c by (simp add: foldl_apply_items split: if_splits)
  have d: "\<forall>row. Replace_UserDatas row \<in> set (calls st) \<longrightarrow>
            (\<exists>kw. Inr kw \<in> set (parse fromisoformat kodi_tsv) \<and>
                  resolves (TypedBaseItems (library_db_file dir)) kw (key row))"
    using run_calls[OF assms] by blast
  have e: "\<exists>kw. Inr kw \<in> set (parse fromisoformat kodi_tsv) \<and>
                  resolves (TypedBaseItems (library_db_file dir)) kw k"
    if "UserDatas (library_db_file (after_close st)) k \<noteq> UserDatas (library_db_file dir) k" for k
  proof (rule ccontr)
    assume n: "\<not> ?thesis"
    have "key row \<noteq> k" if "Replace_UserDatas row \<in> set (calls st)" for row
      using d that n by blast
    from foldl_apply_other_key[of "calls st" k "library_db_file dir", OF this]
    have "UserDatas (foldl apply_statement (library_db_file dir) (calls st)) k =
        UserDatas (library_db_file dir) k"
      by simp
    with c that show False
      by (simp split: if_splits)
  qed
  from a b d e show ?thesis by blast
qed


lemma parse_example:
  "parse example_fromisoformat example_tsv =
     map Inr [example_record ''plugin://video/'' ''x.strm'' 1672531200 1,
       example_record ''/movies/'' ''foo.mkv'' 1672531200 3,
       example_record ''/movies/'' ''gone.mkv'' 1672531200 2,
       example_record ''/'' [] 1672531200 1]"
  by (simp add: parse_defs example_defs example_tsv_def)

lemma run_example:
  "kodi2jellyfin example_fromisoformat example_timestamp no_fault example_tsv example_dir ''jfly'' =
   (None, \<lparr>jellyfin = connect (jellyfin_db_file example_dir),
      library = connect ((library_db_file example_dir)\<lparr>UserDatas := [''key1'' \<mapsto>
          \<lparr>key = ''key1'', userId = ''u1'', played = True, playCount = 3,
           lastPlayedDate = 1672531200, isFavorite = False, playbackPositionTicks = 0\<rparr>]\<rparr>),
      calls = [Select_Users ''jfly'', Select_TypedBaseItems ''/movies/foo.mkv'',
         Replace_UserDatas \<lparr>key = ''key1'', userId = ''u1'', played = True, playCount = 3,
           lastPlayedDate = 1672531200, isFavorite = False, playbackPositionTicks = 0\<rparr>,
         Select_TypedBaseItems ''/movies/gone.mkv'', Commit_jellyfin, Commit_library],
      kodi_watched_missing_from_jellyfin = [example_record ''/movies/'' ''gone.mkv'' 1672531200 2],
      logging = [DEBUG_Skipping (example_record ''plugin://video/'' ''x.strm'' 1672531200 1),
         DEBUG_Skipping (example_record ''/'' [] 1672531200 1),
         WARNING (warning_head @ [CHR 0x0A] @ ''/movies/gone.mkv'')]\<rparr>)"
  by (simp add: run_defs parse_example engine_defs example_defs whole_second)

theorem run_writes_only_resolved_rows_witness:
  "fst (kodi2jellyfin example_fromisoformat example_timestamp no_fault example_tsv example_dir ''jfly'') = None
   \<and> UserDatas (library_db_file (after_close (snd (kodi2jellyfin example_fromisoformat
         example_timestamp no_fault example_tsv example_dir ''jfly'')))) ''key1'' \<noteq>
       UserDatas (library_db_file example_dir) ''key1''
   \<and> (\<exists>kw. Inr kw \<in> set (parse example_fromisoformat example_tsv) \<and>
          resolves (TypedBaseItems (library_db_file example_dir)) kw ''key1'')
   \<and> jellyfin_db_file (after_close (snd (kodi2jellyfin example_fromisoformat
         example_timestamp no_fault example_tsv example_dir ''jfly''))) = jellyfin_db_file example_dir
   \<and> TypedBaseItems (library_db_file (after_close (snd (kodi2jellyfin example_fromisoformat
         example_timestamp no_fault example_tsv example_dir ''jfly'')))) =
       TypedBaseItems (library_db_file example_dir)"
proof -
  let ?run = "kodi2jellyfin example_fromisoformat example_timestamp no_fault example_tsv example_dir ''jfly''"
  have n: "fst ?run = None"
    by (simp add: run_example)
  have d: "UserDatas (library_db_file (after_close (snd ?run))) ''key1'' \<noteq>
       UserDatas (library_db_file example_dir) ''key1''"
    unfolding run_example by (simp add: after_close_def connect_def example_dir_def)
  have e: "?run = (fst ?run, snd ?run)"
    by simp
  from run_writes_only_resolved_rows[OF e] n d show ?thesis
    by blast
qed















subsection \<open>The records that parse yields\<close>






lemma int_of_str_error: "int_of_str s = Inl e \<Longrightarrow> e = ValueError"
  by (auto simp: int_of_str_def int_of_digits_def map_sum_def split: list.splits if_splits sum.splits)

lemma parse_row_accepted:
  "(\<exists>kw. parse_row fromisoformat row = Inr kw) \<longleftrightarrow> accepted_row fromisoformat row"
  by (auto simp: parse_row_def and_then_def getitem_def py_fromisoformat_def py_int_def accepted_row_def
      split: sum.splits option.splits dest: int_of_str_error)








lemma yield_rows_take:
  "yield_rows fromisoformat rows =
     map (parse_row fromisoformat)
       (take (Suc (length (takeWhile (accepted_row fromisoformat) rows))) rows)"
proof (induction rows)
  case Nil
  then show ?case by simp
next
  case (Cons row rows)
  show ?case
  proof (cases "parse_row fromisoformat row")
    case (Inl e)
    then have "\<not> accepted_row fromisoformat row"
      using parse_row_accepted[of fromisoformat row] by auto
    with Inl show ?thesis by simp
  next
    case (Inr kw)
    then have "accepted_row fromisoformat row"
      using parse_row_accepted[of fromisoformat row] by auto
    with Inr Cons.IH show ?thesis by simp
  qed
qed

lemma process_null_field:
  "folder kw = None \<or> file_name kw = None \<Longrightarrow>
     process fault timestamp user kw st = (Some TypeError, st)"
  by (auto simp: process_def skip_def path_def and_then_def split: option.splits)

text \<open>
  C7 (amended). The outcomes of \<open>parse\<close> are the conversions of the rows that the reader
  gives, in file order, up to and including the first row that is not accepted, at which
  \<open>parse\<close> raises \<^verbatim>\<open>KeyError\<close>, \<^verbatim>\<open>TypeError\<close> or \<^verbatim>\<open>ValueError\<close> (the spec's
  \<open>MalformedRecord\<close>) and yields nothing more. A row is accepted exactly when the header
  has the four columns, the row has a value for \<^verbatim>\<open>lastPlayed\<close> and for \<^verbatim>\<open>playCount\<close>, and both
  parse; so a row that lacks only the value of \<^verbatim>\<open>strPath\<close> or \<^verbatim>\<open>strFileName\<close> is yielded,
  with that field null, and the loop body raises \<^verbatim>\<open>TypeError\<close> on such a record before any
  store access. When every row is accepted, \<open>parse\<close> yields one record per row of the
  reader, in order; the reader gives the rows after the header that are not blank.
\<close>

theorem parse_stops_at_first_rejected_row:
  "parse fromisoformat kodi_tsv =
     map (parse_row fromisoformat)
       (take (Suc (length (takeWhile (accepted_row fromisoformat) (DictReader kodi_tsv))))
          (DictReader kodi_tsv))
   \<and> (\<forall>row. (\<exists>kw. parse_row fromisoformat row = Inr kw) \<longleftrightarrow> accepted_row fromisoformat row)
   \<and> (\<forall>row e. parse_row fromisoformat row = Inl e \<longrightarrow> e \<in> {KeyError, TypeError, ValueError})
   \<and> ((\<forall>row\<in>set (DictReader kodi_tsv). accepted_row fromisoformat row) \<longrightarrow>
        length (parse fromisoformat kodi_tsv) = length (DictReader kodi_tsv) \<and>
        (\<forall>i<length (DictReader kodi_tsv). \<exists>kw. parse fromisoformat kodi_tsv ! i = Inr kw \<and>
            parse_row fromisoformat (DictReader kodi_tsv ! i) = Inr kw))
   \<and> length (DictReader kodi_tsv) = length (filter (\<lambda>row. row \<noteq> []) (tl kodi_tsv))
   \<and> (\<forall>kw fault timestamp user st. folder kw = None \<or> file_name kw = None \<longrightarrow>
         process fault timestamp user (kw :: 'dt KodiWatched) st = (Some TypeError, st))"
  for fromisoformat :: "string \<Rightarrow> 'dt option"
proof -
  let ?rows = "DictReader kodi_tsv"
  have a: "parse fromisoformat kodi_tsv =
     map (parse_row fromisoformat)
       (take (Suc (length (takeWhile (accepted_row fromisoformat) ?rows))) ?rows)"
    by (simp add: parse_def yield_rows_take)
  have b: "\<forall>row. (\<exists>kw. parse_row fromisoformat row = Inr kw) \<longleftrightarrow> accepted_row fromisoformat row"
    by (simp add: parse_row_accepted)
  have c: "\<forall>row e. parse_row fromisoformat row = Inl e \<longrightarrow> e \<in> {KeyError, TypeError, ValueError}"
    using parse_row_error by blast
  have d: "length (parse fromisoformat kodi_tsv) = length ?rows \<and>
        (\<forall>i<length ?rows. \<exists>kw. parse fromisoformat kodi_tsv ! i = Inr kw \<and>
            parse_row fromisoformat (?rows ! i) = Inr kw)"
    if w: "\<forall>row\<in>set ?rows. accepted_row fromisoformat row"
  proof -
    from w have "takeWhile (accepted_row fromisoformat) ?rows = ?rows"
      by (simp add: takeWhile_eq_all_conv)
    with a have p: "parse fromisoformat kodi_tsv = map (parse_row fromisoformat) ?rows"
      by simp
    have "\<exists>kw. parse_row fromisoformat (?rows ! i) = Inr kw" if "i < length ?rows" for i
      using w that b by (metis nth_mem)
    with p show ?thesis by auto
  qed
  have e: "length ?rows = length (filter (\<lambda>row. row \<noteq> []) (tl kodi_tsv))"
    by (simp add: DictReader_def split: list.splits)
  have f: "\<forall>kw fault timestamp user st. folder kw = None \<or> file_name kw = None \<longrightarrow>
         process fault timestamp user (kw :: 'dt KodiWatched) st = (Some TypeError, st)"
    by (simp add: process_null_field)
  from a b c d e f show ?thesis by blast
qed

lemma parse_short:
  "parse example_fromisoformat example_tsv_short =
     [Inr \<lparr>folder = None, file_name = None, last_played = Some 1672531200, play_count = 1\<rparr>]"
  by (simp add: parse_defs example_defs example_tsv_short_def)

lemma parse_blank:
  "parse example_fromisoformat example_tsv_blank =
     [Inr (example_record ''/movies/'' ''foo.mkv'' 1672531200 3)]"
  by (simp add: parse_defs example_defs example_tsv_blank_def)

text \<open>
  C7 as stated fails: a row that has no value for \<^verbatim>\<open>strPath\<close> and \<^verbatim>\<open>strFileName\<close> (the header
  names them last) is yielded as a record, not rejected; and of two rows after the header,
  one of them blank, \<open>parse\<close> yields one record and raises nothing.
\<close>

theorem malformed_rows_counterexample:
  "parse example_fromisoformat example_tsv_short =
     [Inr \<lparr>folder = None, file_name = None, last_played = Some 1672531200, play_count = 1\<rparr>]
   \<and> length (tl example_tsv_blank) = 2
   \<and> parse example_fromisoformat example_tsv_blank =
     [Inr (example_record ''/movies/'' ''foo.mkv'' 1672531200 3)]"
  by (simp add: parse_short parse_blank) (simp add: example_tsv_blank_def)

theorem parse_stops_at_first_rejected_row_witness:
  "length (parse example_fromisoformat example_tsv) = 4
   \<and> length (filter (\<lambda>row. row \<noteq> []) (tl example_tsv)) = 4
   \<and> parse example_fromisoformat example_tsv_malformed =
       [Inr (example_record ''/movies/'' ''foo.mkv'' 1672531200 3), Inl ValueError]
   \<and> accepted_row example_fromisoformat (DictReader example_tsv_malformed ! 0)
   \<and> parse_row example_fromisoformat (DictReader example_tsv_malformed ! 1) = Inl ValueError"
proof -
  have w: "\<forall>row\<in>set (DictReader example_tsv). accepted_row example_fromisoformat row"
    by (simp add: accepted_row_def parse_defs example_defs example_tsv_def)
  have n: "length (filter (\<lambda>row. row \<noteq> []) (tl example_tsv)) = 4"
    by (simp add: example_tsv_def example_header_def)
  have m: "parse_row example_fromisoformat (DictReader example_tsv_malformed ! 1) = Inl ValueError"
    by (simp add: parse_defs example_defs example_tsv_malformed_def)
  have k: "\<exists>kw. parse_row example_fromisoformat (DictReader example_tsv_malformed ! 0) = Inr kw"
    by (simp add: parse_defs example_defs example_tsv_malformed_def)
  from parse_stops_at_first_rejected_row[of example_fromisoformat example_tsv]
  have "(\<forall>row\<in>set (DictReader example_tsv). accepted_row example_fromisoformat row) \<longrightarrow>
      length (parse example_fromisoformat example_tsv) = length (DictReader example_tsv)"
    and "length (DictReader example_tsv) = length (filter (\<lambda>row. row \<noteq> []) (tl example_tsv))"
    by blast+
  with w n have "length (parse example_fromisoformat example_tsv) = 4"
    by simp
  moreover
  from parse_stops_at_first_rejected_row[of example_fromisoformat example_tsv_malformed] k
  have "accepted_row example_fromisoformat (DictReader example_tsv_malformed ! 0)"
    by blast
  ultimately show ?thesis
    using n m parse_malformed by simp
qed


end
